theory Spec2Isabelle
  imports
    Main
    "HOL-Library.Sublist"
    "HOL-Library.AList"
    "HOL-Library.Char_ord"
    "HOL-Library.List_Lexorder"
begin

section \<open>Strings\<close>

text \<open>
  Python strings are modelled as \<open>string\<close> (lists of 8-bit characters).
  \<open>str.lower\<close> is modelled on the ASCII letters; every other character is left
  as it is.
\<close>

definition lower_char :: "char \<Rightarrow> char" where
  "lower_char c =
     (case map_of (zip ''ABCDEFGHIJKLMNOPQRSTUVWXYZ'' ''abcdefghijklmnopqrstuvwxyz'') c of
        None \<Rightarrow> c
      | Some l \<Rightarrow> l)"

definition lower :: "string \<Rightarrow> string" where
  "lower s = map lower_char s"

text \<open>\<open>p in s\<close> on strings: \<open>p\<close> occurs in \<open>s\<close> as a contiguous run.\<close>

fun str_in :: "string \<Rightarrow> string \<Rightarrow> bool" where
  "str_in p [] = (p = [])"
| "str_in p (c # s) = (prefix p (c # s) \<or> str_in p s)"

text \<open>\<open>s.split(d)\<close> for a one-character separator.\<close>

fun split_on :: "char \<Rightarrow> string \<Rightarrow> string list" where
  "split_on d [] = [[]]"
| "split_on d (c # s) =
     (if c = d then [] # split_on d s
      else (case split_on d s of [] \<Rightarrow> [[c]] | w # ws \<Rightarrow> (c # w) # ws))"

section \<open>Outcomes of a call\<close>

datatype error =
  JSONDecodeError | KeyError | ValueError | TypeError | AttributeError | OverflowError

text \<open>
  A call returns a value or raises. \<open>Untyped\<close> is not an exception: it marks a call
  that the interpreter completes with a value outside the declared field types (a
  non-string ticket read from a file, say), which the typed records below cannot hold.
\<close>

datatype 'a outcome = Returns 'a | Raises error | Untyped

definition bind :: "'a outcome \<Rightarrow> ('a \<Rightarrow> 'b outcome) \<Rightarrow> 'b outcome" where
  "bind x f = (case x of Returns v \<Rightarrow> f v | Raises e \<Rightarrow> Raises e | Untyped \<Rightarrow> Untyped)"

section \<open>Dates\<close>

text \<open>
  A \<open>date\<close> is represented by its proleptic Gregorian ordinal (\<open>date.toordinal()\<close>:
  day 1 is 0001-01-01, a Monday; \<open>date.max\<close>, 9999-12-31, is day 3652059). A
  \<open>timedelta\<close> is its number of days. Both constructors and date arithmetic raise
  \<open>OverflowError\<close> outside their ranges.
\<close>

type_synonym date = int

definition max_ordinal :: int where
  "max_ordinal = 3652059"

definition max_delta_days :: int where
  "max_delta_days = 999999999"

definition timedelta :: "int \<Rightarrow> int outcome" where
  "timedelta days =
     (if - max_delta_days \<le> days \<and> days \<le> max_delta_days then Returns days
      else Raises OverflowError)"

definition date_plus :: "date \<Rightarrow> int \<Rightarrow> date outcome" where
  "date_plus d n =
     (if 1 \<le> d + n \<and> d + n \<le> max_ordinal then Returns (d + n) else Raises OverflowError)"

definition weekday :: "date \<Rightarrow> int" where
  "weekday d = (d + 6) mod 7"

section \<open>Data model (models.py)\<close>

text \<open>
  A naive \<open>datetime\<close> as the interpreter stores it: its calendar and clock fields.
\<close>

record datetime =
  year :: nat
  month :: nat
  day :: nat
  hour :: nat
  minute :: nat
  second :: nat
  microsecond :: nat

text \<open>\<open>datetime.date()\<close>, as the ordinal of the calendar fields.\<close>

definition is_leap :: "nat \<Rightarrow> bool" where
  "is_leap y = (y mod 4 = 0 \<and> (y mod 100 \<noteq> 0 \<or> y mod 400 = 0))"

definition days_before_year :: "nat \<Rightarrow> int" where
  "days_before_year y =
     (let p = int y - 1 in p * 365 + p div 4 - p div 100 + p div 400)"

definition days_in_month :: "nat \<Rightarrow> nat \<Rightarrow> nat" where
  "days_in_month y m =
     (if m = 2 \<and> is_leap y then 29
      else [0, 31, 28, 31, 30, 31, 30, 31, 31, 30, 31, 30, 31] ! m)"

definition days_before_month :: "nat \<Rightarrow> nat \<Rightarrow> int" where
  "days_before_month y m =
     [0, 0, 31, 59, 90, 120, 151, 181, 212, 243, 273, 304, 334] ! m
       + (if 2 < m \<and> is_leap y then 1 else 0)"

definition ymd2ord :: "nat \<Rightarrow> nat \<Rightarrow> nat \<Rightarrow> date" where
  "ymd2ord y m d = days_before_year y + days_before_month y m + int d"

definition date_of :: "datetime \<Rightarrow> date" where
  "date_of t = ymd2ord (year t) (month t) (day t)"

record WorkEntry =
  timestamp :: datetime
  ticket :: string
  project :: string
  details :: string
  duration :: int

record ProjectMapping =
  ticket_patterns :: "string list"
  name :: string

text \<open>
  \<open>project_mappings\<close> is a Python dict: an association list in insertion order.
  Membership is \<open>map_of\<close>, assignment \<open>AList.update\<close> (in place for a known key,
  at the end for a new one), deletion \<open>AList.delete\<close>.
\<close>

record AppState =
  current_ticket :: "string option"
  current_project :: "string option"
  current_details :: "string option"
  last_activity :: "datetime option"
  work_entries :: "WorkEntry list"
  project_mappings :: "(string \<times> ProjectMapping) list"

definition default_state :: AppState where
  "default_state =
     \<lparr>current_ticket = None, current_project = None, current_details = None,
      last_activity = None, work_entries = [], project_mappings = []\<rparr>"

subsection \<open>auto\_detect\_project\<close>

fun scan_patterns :: "string list \<Rightarrow> string \<Rightarrow> bool" where
  "scan_patterns [] tk = False"
| "scan_patterns (p # ps) tk =
     (if str_in (lower p) (lower tk) then True else scan_patterns ps tk)"

fun scan_mappings :: "(string \<times> ProjectMapping) list \<Rightarrow> string \<Rightarrow> string option" where
  "scan_mappings [] tk = None"
| "scan_mappings ((pr, m) # rest) tk =
     (if scan_patterns (ticket_patterns m) tk then Some pr else scan_mappings rest tk)"

definition auto_detect_project :: "AppState \<Rightarrow> string \<Rightarrow> string option" where
  "auto_detect_project s tk = scan_mappings (project_mappings s) tk"

subsection \<open>add\_work\_entry\<close>

definition ticket_prefix :: "string \<Rightarrow> string" where
  "ticket_prefix tk =
     (if CHR ''-'' \<in> set tk then hd (split_on (CHR ''-'') tk) else take 3 tk)"

text \<open>
  \<open>now\<close> is the value of \<open>datetime.now()\<close>. The key \<open>pr\<close> is in the dict once the
  first step has run, so the look-ups \<open>project_mappings[project]\<close> that follow cannot
  raise; the conditional append acts on the mapping stored under that key.
\<close>

definition add_pattern :: "string \<Rightarrow> ProjectMapping \<Rightarrow> ProjectMapping" where
  "add_pattern pre m =
     (if pre \<notin> set (ticket_patterns m)
      then m\<lparr>ticket_patterns := ticket_patterns m @ [pre]\<rparr> else m)"

definition add_work_entry ::
  "datetime \<Rightarrow> string \<Rightarrow> string \<Rightarrow> string \<Rightarrow> AppState \<Rightarrow> AppState" where
  "add_work_entry now tk pr dt s =
     (let entry = \<lparr>timestamp = now, ticket = tk, project = pr, details = dt, duration = 60\<rparr>;
          pm1 = (if map_of (project_mappings s) pr = None
                 then AList.update pr \<lparr>ticket_patterns = [], name = pr\<rparr> (project_mappings s)
                 else project_mappings s)
      in s\<lparr>work_entries := work_entries s @ [entry],
            current_ticket := Some tk,
            current_project := Some pr,
            current_details := Some dt,
            last_activity := Some (timestamp entry),
            project_mappings := AList.map_entry pr (add_pattern (ticket_prefix tk)) pm1\<rparr>)"

subsection \<open>get\_week\_entries\_with\_offset\<close>

text \<open>\<open>today\<close> is the value of \<open>date.today()\<close>.\<close>

definition get_week_entries_with_offset ::
  "date \<Rightarrow> int \<Rightarrow> AppState \<Rightarrow> WorkEntry list outcome" where
  "get_week_entries_with_offset today week_offset s =
     bind (timedelta (weekday today)) (\<lambda>d0.
     bind (date_plus today (- d0)) (\<lambda>current_week_start.
     bind (timedelta (7 * week_offset)) (\<lambda>d1.
     bind (date_plus current_week_start d1) (\<lambda>target_week_start.
     bind (timedelta 6) (\<lambda>d6.
     bind (date_plus target_week_start d6) (\<lambda>target_week_end.
     Returns (filter (\<lambda>entry. target_week_start \<le> date_of (timestamp entry)
                            \<and> date_of (timestamp entry) \<le> target_week_end)
                (work_entries s))))))))"

text \<open>
  The Monday of the week \<open>week_offset\<close> weeks from the week of \<open>today\<close>, and the
  offsets for which that week can be computed: the offset fits a \<open>timedelta\<close> and the
  week's Monday and Sunday are dates.
\<close>

definition target_monday :: "date \<Rightarrow> int \<Rightarrow> date" where
  "target_monday today week_offset = today - weekday today + 7 * week_offset"

definition week_in_range :: "date \<Rightarrow> int \<Rightarrow> bool" where
  "week_in_range today week_offset =
     (\<bar>7 * week_offset\<bar> \<le> max_delta_days \<and> 1 \<le> target_monday today week_offset
      \<and> target_monday today week_offset + 6 \<le> max_ordinal)"

text \<open>The pattern list of a project; empty for a project without a mapping.\<close>

definition patterns_for :: "(string \<times> ProjectMapping) list \<Rightarrow> string \<Rightarrow> string list" where
  "patterns_for pm pr = (case map_of pm pr of None \<Rightarrow> [] | Some m \<Rightarrow> ticket_patterns m)"

section \<open>Serialization (to\_dict and from\_dict)\<close>

text \<open>
  The values of a serialized state: what \<open>to_dict\<close> builds and what \<open>json.load\<close>
  returns (JSON without fractional numbers). A dict is an association list in key order.
\<close>

datatype pyval =
  PNone | PBool bool | PInt int | PStr string | PList "pyval list"
  | PDict "(string \<times> pyval) list"

subsection \<open>isoformat and fromisoformat\<close>

definition digit_char :: "nat \<Rightarrow> char" where
  "digit_char d = ''0123456789'' ! d"

definition digit_value :: "char \<Rightarrow> nat option" where
  "digit_value c =
     map_of [(CHR ''0'', 0), (CHR ''1'', 1), (CHR ''2'', 2), (CHR ''3'', 3), (CHR ''4'', 4),
             (CHR ''5'', 5), (CHR ''6'', 6), (CHR ''7'', 7), (CHR ''8'', 8), (CHR ''9'', 9)] c"

text \<open>\<open>str(n)\<close> for a natural number, and \<open>s.zfill(w)\<close>; together \<open>"%0wd" % n\<close>.\<close>

fun str_nat :: "nat \<Rightarrow> string" where
  "str_nat n = (if n < 10 then [digit_char n] else str_nat (n div 10) @ [digit_char (n mod 10)])"

declare str_nat.simps [simp del]

definition zfill :: "nat \<Rightarrow> string \<Rightarrow> string" where
  "zfill w s = replicate (w - length s) (CHR ''0'') @ s"

text \<open>The constructor's range checks: every \<open>datetime\<close> object satisfies them.\<close>

definition valid_datetime :: "datetime \<Rightarrow> bool" where
  "valid_datetime t =
     (1 \<le> year t \<and> year t \<le> 9999 \<and> 1 \<le> month t \<and> month t \<le> 12
      \<and> 1 \<le> day t \<and> day t \<le> days_in_month (year t) (month t)
      \<and> hour t < 24 \<and> minute t < 60 \<and> second t < 60 \<and> microsecond t < 1000000)"

definition isoformat :: "datetime \<Rightarrow> string" where
  "isoformat t =
     zfill 4 (str_nat (year t)) @ ''-'' @ zfill 2 (str_nat (month t)) @ ''-''
       @ zfill 2 (str_nat (day t)) @ ''T'' @ zfill 2 (str_nat (hour t)) @ '':''
       @ zfill 2 (str_nat (minute t)) @ '':'' @ zfill 2 (str_nat (second t))
       @ (if microsecond t \<noteq> 0 then ''.'' @ zfill 6 (str_nat (microsecond t)) else [])"

fun parse_acc :: "nat \<Rightarrow> string \<Rightarrow> nat option" where
  "parse_acc a [] = Some a"
| "parse_acc a (c # cs) =
     (case digit_value c of None \<Rightarrow> None | Some d \<Rightarrow> parse_acc (10 * a + d) cs)"

text \<open>
  \<open>datetime.fromisoformat\<close> on the layout that \<open>isoformat\<close> writes for a naive
  timestamp, \<open>YYYY-MM-DD?HH:MM:SS\<close> with an optional \<open>.ffffff\<close> (any separator
  character between date and time). \<open>None\<close> stands for \<open>ValueError\<close>. The other
  layouts that the interpreter accepts are not modelled and count as unparseable.
\<close>

definition fromisoformat :: "string \<Rightarrow> datetime option" where
  "fromisoformat s =
     (if length s \<noteq> 19 \<and> length s \<noteq> 26 then None
      else if s ! 4 \<noteq> CHR ''-'' \<or> s ! 7 \<noteq> CHR ''-'' \<or> s ! 13 \<noteq> CHR '':''
              \<or> s ! 16 \<noteq> CHR '':'' \<or> (length s = 26 \<and> s ! 19 \<noteq> CHR ''.'') then None
      else
        Option.bind (parse_acc 0 (take 4 s)) (\<lambda>y.
        Option.bind (parse_acc 0 (take 2 (drop 5 s))) (\<lambda>m.
        Option.bind (parse_acc 0 (take 2 (drop 8 s))) (\<lambda>d.
        Option.bind (parse_acc 0 (take 2 (drop 11 s))) (\<lambda>hh.
        Option.bind (parse_acc 0 (take 2 (drop 14 s))) (\<lambda>mm.
        Option.bind (parse_acc 0 (take 2 (drop 17 s))) (\<lambda>ss.
        Option.bind (if length s = 26 then parse_acc 0 (drop 20 s) else Some 0) (\<lambda>us.
          (let t = \<lparr>year = y, month = m, day = d, hour = hh, minute = mm, second = ss,
                    microsecond = us\<rparr>
           in if valid_datetime t then Some t else None)))))))))"

subsection \<open>to\_dict\<close>

definition WorkEntry_to_dict :: "WorkEntry \<Rightarrow> pyval" where
  "WorkEntry_to_dict e =
     PDict [(''timestamp'', PStr (isoformat (timestamp e))),
            (''ticket'', PStr (ticket e)),
            (''project'', PStr (project e)),
            (''details'', PStr (details e)),
            (''duration'', PInt (duration e))]"

definition ProjectMapping_to_dict :: "ProjectMapping \<Rightarrow> pyval" where
  "ProjectMapping_to_dict m =
     PDict [(''ticket_patterns'', PList (map PStr (ticket_patterns m))),
            (''name'', PStr (name m))]"

definition opt_str :: "string option \<Rightarrow> pyval" where
  "opt_str x = (case x of None \<Rightarrow> PNone | Some v \<Rightarrow> PStr v)"

definition AppState_to_dict :: "AppState \<Rightarrow> pyval" where
  "AppState_to_dict s =
     PDict [(''current_ticket'', opt_str (current_ticket s)),
            (''current_project'', opt_str (current_project s)),
            (''current_details'', opt_str (current_details s)),
            (''last_activity'',
               (case last_activity s of None \<Rightarrow> PNone | Some t \<Rightarrow> PStr (isoformat t))),
            (''work_entries'', PList (map WorkEntry_to_dict (work_entries s))),
            (''project_mappings'',
               PDict (map (\<lambda>(k, v). (k, ProjectMapping_to_dict v)) (project_mappings s)))]"

subsection \<open>from\_dict\<close>

text \<open>
  The operations of the interpreter that \<open>from_dict\<close> applies to a value, with the
  exception each raises on a value of another shape.
\<close>

definition dict_get :: "pyval \<Rightarrow> string \<Rightarrow> pyval \<Rightarrow> pyval outcome" where
  "dict_get data k dflt =
     (case data of
        PDict d \<Rightarrow> Returns (case map_of d k of None \<Rightarrow> dflt | Some v \<Rightarrow> v)
      | _ \<Rightarrow> Raises AttributeError)"

definition getitem :: "pyval \<Rightarrow> string \<Rightarrow> pyval outcome" where
  "getitem data k =
     (case data of
        PDict d \<Rightarrow> (case map_of d k of None \<Rightarrow> Raises KeyError | Some v \<Rightarrow> Returns v)
      | _ \<Rightarrow> Raises TypeError)"

definition truthy :: "pyval \<Rightarrow> bool" where
  "truthy v =
     (case v of PNone \<Rightarrow> False | PBool b \<Rightarrow> b | PInt i \<Rightarrow> i \<noteq> 0 | PStr x \<Rightarrow> x \<noteq> []
      | PList l \<Rightarrow> l \<noteq> [] | PDict d \<Rightarrow> d \<noteq> [])"

definition iterate :: "pyval \<Rightarrow> pyval list outcome" where
  "iterate v =
     (case v of
        PList l \<Rightarrow> Returns l
      | PDict d \<Rightarrow> Returns (map (\<lambda>(k, x). PStr k) d)
      | PStr x \<Rightarrow> Returns (map (\<lambda>c. PStr [c]) x)
      | _ \<Rightarrow> Raises TypeError)"

definition dict_items :: "pyval \<Rightarrow> (string \<times> pyval) list outcome" where
  "dict_items v = (case v of PDict d \<Rightarrow> Returns d | _ \<Rightarrow> Raises AttributeError)"

definition datetime_fromisoformat :: "pyval \<Rightarrow> datetime outcome" where
  "datetime_fromisoformat v =
     (case v of
        PStr x \<Rightarrow> (case fromisoformat x of None \<Rightarrow> Raises ValueError | Some t \<Rightarrow> Returns t)
      | _ \<Rightarrow> Raises TypeError)"

fun map_outcome :: "('a \<Rightarrow> 'b outcome) \<Rightarrow> 'a list \<Rightarrow> 'b list outcome" where
  "map_outcome f [] = Returns []"
| "map_outcome f (x # xs) =
     bind (f x) (\<lambda>y. bind (map_outcome f xs) (\<lambda>ys. Returns (y # ys)))"

text \<open>
  \<open>from_dict\<close> checks no types: it stores what it reads. The readers below return the
  fields as read (timestamp, ticket, project, details, duration; patterns, name), and
  the typed records are built from them at the end, where every field has its declared
  type; otherwise the outcome is \<open>Untyped\<close>.
\<close>

definition WorkEntry_from_dict ::
  "pyval \<Rightarrow> (datetime \<times> pyval \<times> pyval \<times> pyval \<times> pyval) outcome" where
  "WorkEntry_from_dict data =
     bind (getitem data ''timestamp'') (\<lambda>ts.
     bind (datetime_fromisoformat ts) (\<lambda>t.
     bind (getitem data ''ticket'') (\<lambda>tk.
     bind (getitem data ''project'') (\<lambda>pr.
     bind (dict_get data ''details'' (PStr [])) (\<lambda>dt.
     bind (dict_get data ''duration'' (PInt 60)) (\<lambda>du.
     Returns (t, tk, pr, dt, du)))))))"

definition ProjectMapping_from_dict :: "pyval \<Rightarrow> (pyval \<times> pyval) outcome" where
  "ProjectMapping_from_dict data =
     bind (dict_get data ''ticket_patterns'' (PList [])) (\<lambda>pats.
     bind (dict_get data ''name'' (PStr [])) (\<lambda>nm.
     Returns (pats, nm)))"

definition typed_opt_str :: "pyval \<Rightarrow> string option option" where
  "typed_opt_str v = (case v of PNone \<Rightarrow> Some None | PStr x \<Rightarrow> Some (Some x) | _ \<Rightarrow> None)"

definition typed_entry ::
  "datetime \<times> pyval \<times> pyval \<times> pyval \<times> pyval \<Rightarrow> WorkEntry option" where
  "typed_entry r =
     (case r of
        (t, PStr tk, PStr pr, PStr dt, PInt du) \<Rightarrow>
          Some \<lparr>timestamp = t, ticket = tk, project = pr, details = dt, duration = du\<rparr>
      | _ \<Rightarrow> None)"

fun typed_list :: "('a \<Rightarrow> 'b option) \<Rightarrow> 'a list \<Rightarrow> 'b list option" where
  "typed_list f [] = Some []"
| "typed_list f (x # xs) =
     (case f x of None \<Rightarrow> None
      | Some y \<Rightarrow> (case typed_list f xs of None \<Rightarrow> None | Some ys \<Rightarrow> Some (y # ys)))"

definition typed_str :: "pyval \<Rightarrow> string option" where
  "typed_str v = (case v of PStr x \<Rightarrow> Some x | _ \<Rightarrow> None)"

definition typed_mapping :: "string \<times> pyval \<times> pyval \<Rightarrow> (string \<times> ProjectMapping) option" where
  "typed_mapping r =
     (case r of
        (k, PList ps, PStr nm) \<Rightarrow>
          (case typed_list typed_str ps of None \<Rightarrow> None
           | Some pats \<Rightarrow> Some (k, \<lparr>ticket_patterns = pats, name = nm\<rparr>))
      | _ \<Rightarrow> None)"

definition typed_state ::
  "pyval \<Rightarrow> pyval \<Rightarrow> pyval \<Rightarrow> datetime option
     \<Rightarrow> (datetime \<times> pyval \<times> pyval \<times> pyval \<times> pyval) list
     \<Rightarrow> (string \<times> pyval \<times> pyval) list \<Rightarrow> AppState outcome" where
  "typed_state ct cp cd la es ms =
     (case (typed_opt_str ct, typed_opt_str cp, typed_opt_str cd,
            typed_list typed_entry es, typed_list typed_mapping ms) of
        (Some ct', Some cp', Some cd', Some es', Some ms') \<Rightarrow>
          Returns \<lparr>current_ticket = ct', current_project = cp', current_details = cd',
                   last_activity = la, work_entries = es', project_mappings = ms'\<rparr>
      | _ \<Rightarrow> Untyped)"

definition AppState_from_dict :: "pyval \<Rightarrow> AppState outcome" where
  "AppState_from_dict data =
     bind (dict_get data ''current_ticket'' PNone) (\<lambda>ct.
     bind (dict_get data ''current_project'' PNone) (\<lambda>cp.
     bind (dict_get data ''current_details'' PNone) (\<lambda>cd.
     bind (dict_get data ''last_activity'' PNone) (\<lambda>la.
     bind (if truthy la
           then bind (getitem data ''last_activity'') (\<lambda>v.
                bind (datetime_fromisoformat v) (\<lambda>t. Returns (Some t)))
           else Returns None) (\<lambda>la'.
     bind (dict_get data ''work_entries'' (PList [])) (\<lambda>we.
     bind (iterate we) (\<lambda>items.
     bind (map_outcome WorkEntry_from_dict items) (\<lambda>es.
     bind (dict_get data ''project_mappings'' (PDict [])) (\<lambda>pm.
     bind (dict_items pm) (\<lambda>kvs.
     bind (map_outcome
             (\<lambda>(k, v). bind (ProjectMapping_from_dict v) (\<lambda>(pats, nm). Returns (k, pats, nm)))
             kvs) (\<lambda>ms.
     typed_state ct cp cd la' es ms)))))))))))"

text \<open>
  The states a program can hold: every timestamp in them is a \<open>datetime\<close> object.
\<close>

definition valid_state :: "AppState \<Rightarrow> bool" where
  "valid_state s =
     (list_all (\<lambda>e. valid_datetime (timestamp e)) (work_entries s)
      \<and> (case last_activity s of None \<Rightarrow> True | Some t \<Rightarrow> valid_datetime t))"

section \<open>State store (data\_manager.py)\<close>

text \<open>
  The three paths the store touches: the data file, its \<open>.json.backup\<close> and its
  \<open>.json.tmp\<close>. A file holds text that \<open>json.load\<close> rejects (\<open>Garbled\<close>) or the
  text of a JSON value. Reads and writes themselves succeed: I/O failures are not
  modelled.
\<close>

datatype content = Garbled | Json pyval

definition json_load :: "content \<Rightarrow> pyval outcome" where
  "json_load c = (case c of Garbled \<Rightarrow> Raises JSONDecodeError | Json v \<Rightarrow> Returns v)"

record filesystem =
  data_file :: "content option"
  backup_file :: "content option"
  tmp_file :: "content option"

record DataManager =
  files :: filesystem
  app_state :: AppState

text \<open>\<open>_save_data\<close>: through the temporary file when the data file exists.\<close>

definition save_data :: "DataManager \<Rightarrow> DataManager" where
  "save_data dm =
     (let doc = Json (AppState_to_dict (app_state dm)); fs = files dm
      in dm\<lparr>files :=
            (if data_file fs \<noteq> None then fs\<lparr>tmp_file := None, data_file := Some doc\<rparr>
             else fs\<lparr>data_file := Some doc\<rparr>)\<rparr>)"

text \<open>The exceptions that \<open>_load_data\<close> catches.\<close>

definition caught :: "error \<Rightarrow> bool" where
  "caught e = (e = JSONDecodeError \<or> e = KeyError \<or> e = ValueError)"

definition load_data :: "filesystem \<Rightarrow> DataManager outcome" where
  "load_data fs =
     (case data_file fs of
        None \<Rightarrow> Returns (save_data \<lparr>files = fs, app_state = default_state\<rparr>)
      | Some c \<Rightarrow>
          (case bind (json_load c) AppState_from_dict of
             Returns st \<Rightarrow> Returns \<lparr>files = fs, app_state = st\<rparr>
           | Untyped \<Rightarrow> Untyped
           | Raises e \<Rightarrow>
               if caught e
               then Returns (save_data
                      \<lparr>files = fs\<lparr>backup_file := Some c, data_file := None\<rparr>,
                       app_state = default_state\<rparr>)
               else Raises e))"

definition DataManager_add_work_entry ::
  "datetime \<Rightarrow> string \<Rightarrow> string \<Rightarrow> string \<Rightarrow> DataManager \<Rightarrow> DataManager" where
  "DataManager_add_work_entry now tk pr dt dm =
     save_data (dm\<lparr>app_state := add_work_entry now tk pr dt (app_state dm)\<rparr>)"

definition update_current_work ::
  "string option \<Rightarrow> string option \<Rightarrow> string option \<Rightarrow> DataManager \<Rightarrow> DataManager" where
  "update_current_work tk pr dt dm =
     (let s = app_state dm;
          s1 = (if tk \<noteq> None then s\<lparr>current_ticket := tk\<rparr> else s);
          s2 = (if pr \<noteq> None then s1\<lparr>current_project := pr\<rparr> else s1);
          s3 = (if dt \<noteq> None then s2\<lparr>current_details := dt\<rparr> else s2)
      in save_data (dm\<lparr>app_state := s3\<rparr>))"

definition stop_current_work :: "DataManager \<Rightarrow> DataManager" where
  "stop_current_work dm =
     save_data (dm\<lparr>app_state := (app_state dm)
       \<lparr>current_ticket := None, current_project := None, current_details := None\<rparr>\<rparr>)"

subsection \<open>cleanup\_test\_data\<close>

definition test_patterns :: "string list" where
  "test_patterns =
     [''test'', ''demo'', ''example'', ''sample'', ''mock'', ''fake'', ''dummy'',
      ''added via status script'', ''added via script'', ''via script'']"

definition is_test_entry :: "WorkEntry \<Rightarrow> bool" where
  "is_test_entry e =
     list_ex (\<lambda>p. str_in (lower p) (lower (ticket e))
                \<or> str_in (lower p) (lower (project e))
                \<or> str_in (lower p) (lower (details e))) test_patterns"

definition is_test_current :: "AppState \<Rightarrow> bool" where
  "is_test_current s =
     (case current_ticket s of
        None \<Rightarrow> False
      | Some tk \<Rightarrow>
          tk \<noteq> [] \<and>
          list_ex (\<lambda>p. str_in (lower p) (lower tk)
                     \<or> str_in (lower p)
                          (lower (case current_project s of None \<Rightarrow> [] | Some pr \<Rightarrow> pr)))
            test_patterns)"

definition is_test_project :: "string \<Rightarrow> bool" where
  "is_test_project pr = list_ex (\<lambda>p. str_in (lower p) (lower pr)) test_patterns"

text \<open>
  The state is a dataclass instance and therefore true, so the guard
  \<open>if not self.app_state\<close> never returns early.
\<close>

definition cleanup_test_data :: "DataManager \<Rightarrow> int \<times> DataManager" where
  "cleanup_test_data dm =
     (let s = app_state dm;
          original_count = length (work_entries s);
          s1 = s\<lparr>work_entries := filter (\<lambda>entry. \<not> is_test_entry entry) (work_entries s)\<rparr>;
          s2 = (if is_test_current s1
                then s1\<lparr>current_ticket := None, current_project := None,
                        current_details := None, last_activity := None\<rparr>
                else s1);
          test_projects =
            map fst (filter (\<lambda>(pr, m). is_test_project pr) (project_mappings s2));
          s3 = s2\<lparr>project_mappings :=
                    foldl (\<lambda>al pr. AList.delete pr al) (project_mappings s2) test_projects\<rparr>;
          removed_count = int original_count - int (length (work_entries s3));
          dm1 = dm\<lparr>app_state := s3\<rparr>
      in (removed_count, if 0 < removed_count then save_data dm1 else dm1))"

subsection \<open>Sequences of store operations\<close>

inductive store_step :: "DataManager \<Rightarrow> DataManager \<Rightarrow> bool" where
  add: "store_step dm (DataManager_add_work_entry now tk pr dt dm)"
| update: "store_step dm (update_current_work tk' pr' dt' dm)"
| stop: "store_step dm (stop_current_work dm)"
| cleanup: "store_step dm (snd (cleanup_test_data dm))"

text \<open>
  The same operations, where \<open>update_current_work\<close> is given a ticket only together
  with a project or while a project is current.
\<close>

inductive guarded_step :: "DataManager \<Rightarrow> DataManager \<Rightarrow> bool" where
  add: "guarded_step dm (DataManager_add_work_entry now tk pr dt dm)"
| update: "tk' = None \<or> pr' \<noteq> None \<or> current_project (app_state dm) \<noteq> None \<Longrightarrow>
     guarded_step dm (update_current_work tk' pr' dt' dm)"
| stop: "guarded_step dm (stop_current_work dm)"
| cleanup: "guarded_step dm (snd (cleanup_test_data dm))"

text \<open>
  A text holds a cleanup marker: one of the patterns occurs in it, both lowered.
\<close>

definition has_marker :: "string \<Rightarrow> bool" where
  "has_marker x = (\<exists>p\<in>set test_patterns. sublist (lower p) (lower x))"

text \<open>
  What \<open>cleanup_test_data\<close> leaves of a state, and the marked entries and the marked
  in-progress pointer in terms of \<open>has_marker\<close>.
\<close>

definition cleaned :: "AppState \<Rightarrow> AppState" where
  "cleaned s =
     s\<lparr>work_entries := filter (\<lambda>e. \<not> is_test_entry e) (work_entries s),
       current_ticket := (if is_test_current s then None else current_ticket s),
       current_project := (if is_test_current s then None else current_project s),
       current_details := (if is_test_current s then None else current_details s),
       last_activity := (if is_test_current s then None else last_activity s),
       project_mappings := filter (\<lambda>(pr, m). \<not> is_test_project pr) (project_mappings s)\<rparr>"



section \<open>Report renderer (report\_generator.py)\<close>

subsection \<open>Hours: float division and formatting\<close>

text \<open>
  \<open>total / 60\<close> divides two integers into a float, and \<open>{x:.1f}\<close> prints a float with
  one decimal. Both are modelled exactly. A float is a mantissa and a binary exponent,
  \<open>Float m e\<close> standing for \<open>m * 2 ^ e\<close>. The quotient is the double nearest to the
  exact quotient (ties to the even mantissa); a quotient of magnitude
  \<open>2 ^ 1024 - 2 ^ 970\<close> or more would round past the largest double, and the division
  raises \<open>OverflowError\<close>. The printed decimal is the tenth nearest to the exact value
  of the float (ties to the even tenth).
\<close>

datatype float = Float int int

definition round_half_even :: "int \<Rightarrow> int \<Rightarrow> int" where
  "round_half_even a b =
     (let q = a div b; r = a mod b
      in if 2 * r < b then q else if b < 2 * r then q + 1 else if even q then q else q + 1)"

fun bit_length :: "nat \<Rightarrow> nat" where
  "bit_length n = (if n = 0 then 0 else Suc (bit_length (n div 2)))"

declare bit_length.simps [simp del]

definition float_limit :: int where
  "float_limit = 60 * (2 ^ 1024 - 2 ^ 970)"

text \<open>
  \<open>n / 60\<close>. With \<open>N = |n| * 2 ^ 58\<close>, \<open>l\<close> is the integer part of the binary
  logarithm of \<open>N / 60\<close>, at least 52, and the mantissa is \<open>N / (60 * 2 ^ (l - 52))\<close>
  rounded, between \<open>2 ^ 52\<close> and \<open>2 ^ 53\<close>.
\<close>

definition int_truediv_60 :: "int \<Rightarrow> float outcome" where
  "int_truediv_60 n =
     (if n = 0 then Returns (Float 0 0)
      else if float_limit \<le> \<bar>n\<bar> then Raises OverflowError
      else
        (let N = nat \<bar>n\<bar> * 2 ^ 58;
             b = bit_length N;
             l = (if 60 * 2 ^ (b - 6) \<le> N then b - 6 else b - 7);
             m = round_half_even (int N) (60 * 2 ^ (l - 52))
         in Returns (Float (sgn n * m) (int l - 110))))"


subsection \<open>Grouping\<close>








subsection \<open>Sections\<close>




subsection \<open>What the report shows\<close>

text \<open>
  The figures of the report stated from the entries themselves: the keys in the order
  of their first entry, the hours text of a number of minutes, and the text of the
  summary, of a ticket subsection and of a project section.
\<close>

definition first_seen :: "'a list \<Rightarrow> 'a list" where
  "first_seen xs = rev (remdups (rev xs))"


definition total_minutes :: "WorkEntry list \<Rightarrow> int" where
  "total_minutes es = sum_list (map duration es)"





section \<open>Properties\<close>

lemma str_in_Nil: "str_in [] s"
  by (induction s) auto

lemma str_in_sublist: "str_in p s = sublist p s"
  by (induction s) (auto simp: sublist_Cons_right)

lemma split_on_not_Nil: "split_on d s \<noteq> []"
  by (induction s) (auto split: list.splits)

lemma hd_split_on: "hd (split_on d s) = takeWhile (\<lambda>c. c \<noteq> d) s"
  using split_on_not_Nil [of d] by (induction s) (auto split: list.splits)

lemma ticket_prefix_eq:
  "ticket_prefix tk =
     (if CHR ''-'' \<in> set tk then takeWhile (\<lambda>c. c \<noteq> CHR ''-'') tk else take 3 tk)"
  by (simp add: ticket_prefix_def hd_split_on)

subsection \<open>Recording an entry\<close>

lemma patterns_for_add_work_entry:
  "patterns_for (project_mappings (add_work_entry now tk pr dt s)) pr =
     (if ticket_prefix tk \<in> set (patterns_for (project_mappings s) pr)
      then patterns_for (project_mappings s) pr
      else patterns_for (project_mappings s) pr @ [ticket_prefix tk])"
  by (simp add: add_work_entry_def patterns_for_def map_of_map_entry update_conv'
      add_pattern_def split: option.splits)

text \<open>
  C1. \<open>add_work_entry\<close> appends exactly one entry, stamped with the current instant
  and with duration 60; it sets the three current-session fields to its arguments and
  \<open>last_activity\<close> to the entry's timestamp; and the pattern list of the project
  gains the derived prefix (the text before the first \<open>-\<close>, or the first three
  characters when there is none) exactly when the list did not hold it already. After
  \<open>add_work_entry("BUG-42", "Alpha", "")\<close> the current ticket is \<open>BUG-42\<close>, the
  current project \<open>Alpha\<close>, and the patterns of \<open>Alpha\<close> contain \<open>BUG\<close>.
\<close>

theorem add_work_entry_effect:
  "work_entries (add_work_entry now tk pr dt s) =
     work_entries s @
       [\<lparr>timestamp = now, ticket = tk, project = pr, details = dt, duration = 60\<rparr>]
   \<and> current_ticket (add_work_entry now tk pr dt s) = Some tk
   \<and> current_project (add_work_entry now tk pr dt s) = Some pr
   \<and> current_details (add_work_entry now tk pr dt s) = Some dt
   \<and> last_activity (add_work_entry now tk pr dt s) = Some now
   \<and> ticket_prefix tk =
        (if CHR ''-'' \<in> set tk then takeWhile (\<lambda>c. c \<noteq> CHR ''-'') tk else take 3 tk)
   \<and> patterns_for (project_mappings (add_work_entry now tk pr dt s)) pr =
        (if ticket_prefix tk \<in> set (patterns_for (project_mappings s) pr)
         then patterns_for (project_mappings s) pr
         else patterns_for (project_mappings s) pr @ [ticket_prefix tk])
   \<and> current_ticket (add_work_entry now ''BUG-42'' ''Alpha'' [] s) = Some ''BUG-42''
   \<and> current_project (add_work_entry now ''BUG-42'' ''Alpha'' [] s) = Some ''Alpha''
   \<and> ''BUG'' \<in> set (patterns_for
          (project_mappings (add_work_entry now ''BUG-42'' ''Alpha'' [] s)) ''Alpha'')"
proof -
  have ex: "ticket_prefix ''BUG-42'' = ''BUG''"
    by (simp add: ticket_prefix_eq)
  have "''BUG'' \<in> set (patterns_for
          (project_mappings (add_work_entry now ''BUG-42'' ''Alpha'' [] s)) ''Alpha'')"
    by (simp add: patterns_for_add_work_entry ex)
  moreover have "work_entries (add_work_entry now tk pr dt s) =
     work_entries s @
       [\<lparr>timestamp = now, ticket = tk, project = pr, details = dt, duration = 60\<rparr>]"
    by (simp add: add_work_entry_def)
  ultimately show ?thesis
    by (simp add: patterns_for_add_work_entry ticket_prefix_eq)
      (simp add: add_work_entry_def)
qed

subsection \<open>Auto-detection\<close>

lemma scan_patterns_iff:
  "scan_patterns ps tk = (\<exists>p\<in>set ps. sublist (lower p) (lower tk))"
  by (induction ps) (auto simp: str_in_sublist)


lemma scan_mappings_None:
  "(scan_mappings pm tk = None) =
     (\<forall>(pr, m)\<in>set pm. \<forall>p\<in>set (ticket_patterns m). \<not> sublist (lower p) (lower tk))"
  by (induction pm) (auto simp: scan_patterns_iff split: if_splits)



subsection \<open>Weekly filtering\<close>

lemma weekday_range: "0 \<le> weekday d \<and> weekday d \<le> 6"
  by (simp add: weekday_def)

lemma current_week_start_ok:
  assumes "1 \<le> today" "today \<le> max_ordinal"
  shows "1 \<le> today - weekday today \<and> today - weekday today \<le> max_ordinal"
  using assms unfolding weekday_def max_ordinal_def by presburger

lemma weekday_target_monday: "weekday (target_monday today k) = 0"
  unfolding weekday_def target_monday_def by presburger

text \<open>
  C2 (as amended). For every state, every date \<open>today\<close> and every offset for which the
  target week can be computed (the offset fits a \<open>timedelta\<close>, and the target week's
  Monday and Sunday are dates between 0001-01-01 and 9999-12-31),
  \<open>get_week_entries_with_offset\<close> returns exactly the entries, in their order, whose
  date lies between the target Monday (the current week's Monday plus 7 times the offset
  days) and the Sunday six days later, both included; so an entry of the following
  Monday is left out. For every other offset the call raises \<open>OverflowError\<close>.
\<close>

theorem get_week_entries_with_offset_spec:
  assumes "1 \<le> today" and "today \<le> max_ordinal"
  shows "get_week_entries_with_offset today k s =
           (if week_in_range today k
            then Returns (filter (\<lambda>e. target_monday today k \<le> date_of (timestamp e)
                                    \<and> date_of (timestamp e) \<le> target_monday today k + 6)
                            (work_entries s))
            else Raises OverflowError)
         \<and> weekday (target_monday today k) = 0
         \<and> weekday (target_monday today k + 6) = 6"
proof -
  have wd: "0 \<le> weekday today" "weekday today \<le> 6"
    using weekday_range [of today] by simp_all
  have t0: "timedelta (weekday today) = Returns (weekday today)"
    using wd by (simp add: timedelta_def max_delta_days_def)
  have c0: "date_plus today (- weekday today) = Returns (today - weekday today)"
    using current_week_start_ok [OF assms] by (simp add: date_plus_def)
  have t6: "timedelta 6 = Returns 6"
    by (simp add: timedelta_def max_delta_days_def)
  have sun: "weekday (target_monday today k + 6) = 6"
    unfolding weekday_def target_monday_def by presburger
  have main: "get_week_entries_with_offset today k s =
           (if week_in_range today k
            then Returns (filter (\<lambda>e. target_monday today k \<le> date_of (timestamp e)
                                    \<and> date_of (timestamp e) \<le> target_monday today k + 6)
                            (work_entries s))
            else Raises OverflowError)"
    unfolding get_week_entries_with_offset_def
    apply (simp only: t0 bind_def outcome.case c0 t6)
    apply (auto simp: week_in_range_def target_monday_def timedelta_def
        date_plus_def max_delta_days_def max_ordinal_def)
    done
  show ?thesis
    using main sun weekday_target_monday [of today k] by simp
qed

text \<open>
  On Wednesday 2026-11-04 (day 739924), offset \<open>-1\<close>: the entries of Monday
  2026-10-26 and Sunday 2026-11-01 are returned, the entry of Monday 2026-11-02 is not.
\<close>

theorem get_week_entries_with_offset_spec_witness:
  "get_week_entries_with_offset 739924 (- 1)
     (default_state\<lparr>work_entries :=
        [\<lparr>timestamp = \<lparr>year = 2026, month = 10, day = 26, hour = 9, minute = 0,
                        second = 0, microsecond = 0\<rparr>,
          ticket = ''A-1'', project = ''P'', details = [], duration = 60\<rparr>,
         \<lparr>timestamp = \<lparr>year = 2026, month = 11, day = 1, hour = 23, minute = 59,
                        second = 59, microsecond = 0\<rparr>,
          ticket = ''A-2'', project = ''P'', details = [], duration = 60\<rparr>,
         \<lparr>timestamp = \<lparr>year = 2026, month = 11, day = 2, hour = 0, minute = 0,
                        second = 0, microsecond = 0\<rparr>,
          ticket = ''A-3'', project = ''P'', details = [], duration = 60\<rparr>]\<rparr>)
   = Returns
        [\<lparr>timestamp = \<lparr>year = 2026, month = 10, day = 26, hour = 9, minute = 0,
                        second = 0, microsecond = 0\<rparr>,
          ticket = ''A-1'', project = ''P'', details = [], duration = 60\<rparr>,
         \<lparr>timestamp = \<lparr>year = 2026, month = 11, day = 1, hour = 23, minute = 59,
                        second = 59, microsecond = 0\<rparr>,
          ticket = ''A-2'', project = ''P'', details = [], duration = 60\<rparr>]"
proof -
  have a: "(1::int) \<le> 739924" and b: "739924 \<le> max_ordinal"
    by (simp_all add: max_ordinal_def)
  show ?thesis
    using get_week_entries_with_offset_spec [OF a b, of "- 1"]
    by (simp add: week_in_range_def target_monday_def weekday_def max_ordinal_def
        max_delta_days_def date_of_def ymd2ord_def days_before_year_def
        days_before_month_def is_leap_def default_state_def)
qed

text \<open>
  The claim as stated fails for an offset whose week is past the last date: on day
  739924, offset 500000 raises \<open>OverflowError\<close> instead of returning a list.
\<close>

theorem get_week_entries_with_offset_overflow:
  "get_week_entries_with_offset 739924 500000 default_state = Raises OverflowError"
  by (simp add: get_week_entries_with_offset_def bind_def timedelta_def date_plus_def
      weekday_def max_delta_days_def max_ordinal_def)

subsection \<open>Serialization round trip\<close>

lemma digit_value_digit_char: "d < 10 \<Longrightarrow> digit_value (digit_char d) = Some d"
proof -
  assume "d < 10"
  then have "d \<in> {0, 1, 2, 3, 4, 5, 6, 7, 8, 9}" by auto
  then show ?thesis
    by (auto simp: digit_char_def digit_value_def)
qed

lemma parse_acc_append:
  "parse_acc a (xs @ ys) = Option.bind (parse_acc a xs) (\<lambda>b. parse_acc b ys)"
  by (induction xs arbitrary: a) (auto split: option.splits)

lemma parse_acc_str_nat: "parse_acc a (str_nat n) = Some (a * 10 ^ length (str_nat n) + n)"
proof (induction n arbitrary: a rule: str_nat.induct)
  case (1 n)
  show ?case
  proof (cases "n < 10")
    case True
    then show ?thesis
      by (subst (1 2) str_nat.simps) (simp add: digit_value_digit_char)
  next
    case False
    have d: "digit_value (digit_char (n mod 10)) = Some (n mod 10)"
      by (simp add: digit_value_digit_char)
    show ?thesis
      using False "1.IH" [OF False]
      by (subst (1 2) str_nat.simps) (simp add: parse_acc_append d algebra_simps)
  qed
qed

lemma parse_acc_zeros: "parse_acc 0 (replicate k (CHR ''0'') @ s) = parse_acc 0 s"
  by (induction k) (auto simp: digit_value_def)

lemma length_str_nat: "n < 10 ^ w \<Longrightarrow> 0 < w \<Longrightarrow> length (str_nat n) \<le> w"
proof (induction w arbitrary: n)
  case 0
  then show ?case by simp
next
  case (Suc w)
  show ?case
  proof (cases "n < 10")
    case True
    then show ?thesis by (subst str_nat.simps) simp
  next
    case False
    then have "0 < w" using Suc.prems by (cases w) auto
    moreover have "n div 10 < 10 ^ w" using Suc.prems by (simp add: less_mult_imp_div_less mult.commute)
    ultimately have "length (str_nat (n div 10)) \<le> w" by (rule Suc.IH [rotated])
    then show ?thesis using False by (subst str_nat.simps) simp
  qed
qed

lemma zfill_length: "n < 10 ^ w \<Longrightarrow> 0 < w \<Longrightarrow> length (zfill w (str_nat n)) = w"
  using length_str_nat [of n w] by (simp add: zfill_def)

lemma zfill_parse: "parse_acc 0 (zfill w (str_nat n)) = Some n"
  by (simp add: zfill_def parse_acc_zeros parse_acc_str_nat)

lemma str_nat_not_Nil: "str_nat n \<noteq> []"
  by (subst str_nat.simps) simp

lemma isoformat_not_Nil: "isoformat t \<noteq> []"
  by (simp add: isoformat_def zfill_def str_nat_not_Nil)

lemma days_in_month_le: "m \<le> 12 \<Longrightarrow> days_in_month y m \<le> 31"
proof -
  assume "m \<le> 12"
  then have "m \<in> {0, 1, 2, 3, 4, 5, 6, 7, 8, 9, 10, 11, 12}" by simp presburger
  then show ?thesis by (auto simp: days_in_month_def)
qed

lemma fromisoformat_isoformat:
  assumes "valid_datetime t"
  shows "fromisoformat (isoformat t) = Some t"
proof -
  define Y where "Y = zfill 4 (str_nat (year t))"
  define M where "M = zfill 2 (str_nat (month t))"
  define D where "D = zfill 2 (str_nat (day t))"
  define H where "H = zfill 2 (str_nat (hour t))"
  define I where "I = zfill 2 (str_nat (minute t))"
  define S where "S = zfill 2 (str_nat (second t))"
  define U where "U = zfill 6 (str_nat (microsecond t))"
  have len: "length Y = 4" "length M = 2" "length D = 2" "length H = 2" "length I = 2"
    "length S = 2" "length U = 6"
    using assms days_in_month_le [of "month t" "year t"]
    unfolding Y_def M_def D_def H_def I_def S_def U_def valid_datetime_def
    by (auto intro!: zfill_length)
  have val: "parse_acc 0 Y = Some (year t)" "parse_acc 0 M = Some (month t)"
    "parse_acc 0 D = Some (day t)" "parse_acc 0 H = Some (hour t)"
    "parse_acc 0 I = Some (minute t)" "parse_acc 0 S = Some (second t)"
    "parse_acc 0 U = Some (microsecond t)"
    unfolding Y_def M_def D_def H_def I_def S_def U_def by (simp_all add: zfill_parse)
  have iso: "isoformat t = Y @ ''-'' @ M @ ''-'' @ D @ ''T'' @ H @ '':'' @ I @ '':'' @ S
       @ (if microsecond t \<noteq> 0 then ''.'' @ U else [])"
    unfolding isoformat_def Y_def M_def D_def H_def I_def S_def U_def by simp
  have back0: "microsecond t = 0 \<Longrightarrow>
      \<lparr>year = year t, month = month t, day = day t, hour = hour t, minute = minute t,
       second = second t, microsecond = 0\<rparr> = t"
    by (simp add: datetime.equality)
  have back1: "\<lparr>year = year t, month = month t, day = day t, hour = hour t,
       minute = minute t, second = second t, microsecond = microsecond t\<rparr> = t"
    by simp
  show ?thesis
  proof (cases "microsecond t = 0")
    case True
    then show ?thesis
      using assms unfolding iso fromisoformat_def
      by (simp add: len val nth_append Let_def back0 back1)
  next
    case False
    then show ?thesis
      using assms unfolding iso fromisoformat_def
      by (simp add: len val nth_append Let_def back0 back1)
  qed
qed


lemma bind_Returns: "bind (Returns v) f = f v"
  by (simp add: bind_def)

lemma bind_Raises: "bind (Raises e) f = Raises e"
  by (simp add: bind_def)

lemma bind_Untyped: "bind Untyped f = Untyped"
  by (simp add: bind_def)

lemma WorkEntry_from_to_dict:
  "valid_datetime (timestamp e) \<Longrightarrow>
     WorkEntry_from_dict (WorkEntry_to_dict e) =
       Returns (timestamp e, PStr (ticket e), PStr (project e), PStr (details e),
                PInt (duration e))"
  by (simp add: WorkEntry_from_dict_def WorkEntry_to_dict_def bind_def getitem_def
      dict_get_def datetime_fromisoformat_def fromisoformat_isoformat)

lemma entries_from_to_dict:
  "list_all (\<lambda>e. valid_datetime (timestamp e)) es \<Longrightarrow>
     map_outcome WorkEntry_from_dict (map WorkEntry_to_dict es) =
       Returns (map (\<lambda>e. (timestamp e, PStr (ticket e), PStr (project e), PStr (details e),
                           PInt (duration e))) es)"
  by (induction es) (simp_all add: WorkEntry_from_to_dict bind_def)

lemma typed_entries:
  "typed_list typed_entry
     (map (\<lambda>e. (timestamp e, PStr (ticket e), PStr (project e), PStr (details e),
                 PInt (duration e))) es) = Some es"
  by (induction es) (simp_all add: typed_entry_def)

lemma typed_strs: "typed_list typed_str (map PStr ps) = Some ps"
  by (induction ps) (simp_all add: typed_str_def)

lemma mappings_from_to_dict:
  "map_outcome
     (\<lambda>(k, v). bind (ProjectMapping_from_dict v) (\<lambda>(pats, nm). Returns (k, pats, nm)))
     (map (\<lambda>(k, v). (k, ProjectMapping_to_dict v)) pm) =
   Returns (map (\<lambda>(k, m). (k, PList (map PStr (ticket_patterns m)), PStr (name m))) pm)"
  by (induction pm)
    (auto simp: ProjectMapping_from_dict_def ProjectMapping_to_dict_def bind_def dict_get_def)

lemma typed_mappings:
  "typed_list typed_mapping
     (map (\<lambda>(k, m). (k, PList (map PStr (ticket_patterns m)), PStr (name m))) pm) = Some pm"
  by (induction pm) (auto simp: typed_mapping_def typed_strs)

lemma typed_opt_str_opt_str: "typed_opt_str (opt_str x) = Some x"
  by (cases x) (simp_all add: typed_opt_str_def opt_str_def)

text \<open>
  C5. Deserializing the serialization of a state gives the state back: the same
  entries in the same order, the same mappings and the same current-session fields.
  The hypothesis is the invariant of the \<open>datetime\<close> type (naive timestamps whose
  fields are in range).
\<close>

theorem from_dict_to_dict:
  assumes "valid_state s"
  shows "AppState_from_dict (AppState_to_dict s) = Returns s"
proof -
  have es: "list_all (\<lambda>e. valid_datetime (timestamp e)) (work_entries s)"
    using assms by (simp add: valid_state_def)
  have la: "(if truthy (case last_activity s of None \<Rightarrow> PNone | Some t \<Rightarrow> PStr (isoformat t))
           then bind (getitem (AppState_to_dict s) ''last_activity'') (\<lambda>v.
                bind (datetime_fromisoformat v) (\<lambda>t. Returns (Some t)))
           else Returns None) = Returns (last_activity s)"
    using assms
    by (cases "last_activity s")
      (simp_all add: valid_state_def truthy_def isoformat_not_Nil getitem_def
        AppState_to_dict_def bind_def datetime_fromisoformat_def fromisoformat_isoformat)
  have gets:
    "dict_get (AppState_to_dict s) ''current_ticket'' PNone = Returns (opt_str (current_ticket s))"
    "dict_get (AppState_to_dict s) ''current_project'' PNone = Returns (opt_str (current_project s))"
    "dict_get (AppState_to_dict s) ''current_details'' PNone = Returns (opt_str (current_details s))"
    "dict_get (AppState_to_dict s) ''last_activity'' PNone =
       Returns (case last_activity s of None \<Rightarrow> PNone | Some t \<Rightarrow> PStr (isoformat t))"
    "dict_get (AppState_to_dict s) ''work_entries'' (PList []) =
       Returns (PList (map WorkEntry_to_dict (work_entries s)))"
    "dict_get (AppState_to_dict s) ''project_mappings'' (PDict []) =
       Returns (PDict (map (\<lambda>(k, v). (k, ProjectMapping_to_dict v)) (project_mappings s)))"
    by (simp_all add: dict_get_def AppState_to_dict_def)
  show ?thesis
    unfolding AppState_from_dict_def
    apply (simp only: gets bind_Returns la)
    apply (simp add: iterate_def dict_items_def entries_from_to_dict [OF es] bind_Returns
        mappings_from_to_dict typed_state_def typed_entries typed_mappings
        typed_opt_str_opt_str)
    done
qed

theorem from_dict_to_dict_witness:
  "valid_state
     \<lparr>current_ticket = Some ''BUG-42'', current_project = Some ''Alpha'',
      current_details = None,
      last_activity = Some \<lparr>year = 2026, month = 11, day = 4, hour = 9, minute = 30,
                              second = 5, microsecond = 120\<rparr>,
      work_entries =
        [\<lparr>timestamp = \<lparr>year = 2024, month = 2, day = 29, hour = 23, minute = 59,
                        second = 59, microsecond = 0\<rparr>,
          ticket = ''BUG-42'', project = ''Alpha'', details = ''fix'', duration = 60\<rparr>],
      project_mappings = [(''Alpha'', \<lparr>ticket_patterns = [''BUG''], name = ''Alpha''\<rparr>)]\<rparr>
   \<and> AppState_from_dict (AppState_to_dict
     \<lparr>current_ticket = Some ''BUG-42'', current_project = Some ''Alpha'',
      current_details = None,
      last_activity = Some \<lparr>year = 2026, month = 11, day = 4, hour = 9, minute = 30,
                              second = 5, microsecond = 120\<rparr>,
      work_entries =
        [\<lparr>timestamp = \<lparr>year = 2024, month = 2, day = 29, hour = 23, minute = 59,
                        second = 59, microsecond = 0\<rparr>,
          ticket = ''BUG-42'', project = ''Alpha'', details = ''fix'', duration = 60\<rparr>],
      project_mappings = [(''Alpha'', \<lparr>ticket_patterns = [''BUG''], name = ''Alpha''\<rparr>)]\<rparr>)
   = Returns
     \<lparr>current_ticket = Some ''BUG-42'', current_project = Some ''Alpha'',
      current_details = None,
      last_activity = Some \<lparr>year = 2026, month = 11, day = 4, hour = 9, minute = 30,
                              second = 5, microsecond = 120\<rparr>,
      work_entries =
        [\<lparr>timestamp = \<lparr>year = 2024, month = 2, day = 29, hour = 23, minute = 59,
                        second = 59, microsecond = 0\<rparr>,
          ticket = ''BUG-42'', project = ''Alpha'', details = ''fix'', duration = 60\<rparr>],
      project_mappings = [(''Alpha'', \<lparr>ticket_patterns = [''BUG''], name = ''Alpha''\<rparr>)]\<rparr>"
proof -
  have v: "valid_state
     \<lparr>current_ticket = Some ''BUG-42'', current_project = Some ''Alpha'',
      current_details = None,
      last_activity = Some \<lparr>year = 2026, month = 11, day = 4, hour = 9, minute = 30,
                              second = 5, microsecond = 120\<rparr>,
      work_entries =
        [\<lparr>timestamp = \<lparr>year = 2024, month = 2, day = 29, hour = 23, minute = 59,
                        second = 59, microsecond = 0\<rparr>,
          ticket = ''BUG-42'', project = ''Alpha'', details = ''fix'', duration = 60\<rparr>],
      project_mappings = [(''Alpha'', \<lparr>ticket_patterns = [''BUG''], name = ''Alpha''\<rparr>)]\<rparr>"
    by (simp add: valid_state_def valid_datetime_def days_in_month_def is_leap_def)
  show ?thesis
    using v from_dict_to_dict [OF v] by simp
qed

subsection \<open>Cleanup\<close>

lemma list_ex_markers:
  "list_ex (\<lambda>p. str_in (lower p) (lower x)) test_patterns = has_marker x"
  by (simp add: has_marker_def list_ex_iff str_in_sublist)

lemma is_test_project_iff: "is_test_project pr = has_marker pr"
  by (simp add: is_test_project_def list_ex_markers)


lemma is_test_current_iff:
  "is_test_current s =
     (\<exists>tk. current_ticket s = Some tk \<and> tk \<noteq> [] \<and>
        (has_marker tk \<or> has_marker (case current_project s of None \<Rightarrow> [] | Some pr \<Rightarrow> pr)))"
  by (auto simp: is_test_current_def has_marker_def list_ex_iff str_in_sublist
      split: option.splits)

lemma foldl_delete:
  "foldl (\<lambda>al pr. AList.delete pr al) al ks = filter (\<lambda>(k, v). k \<notin> set ks) al"
proof (induction ks arbitrary: al)
  case Nil
  then show ?case by simp
next
  case (Cons k ks)
  show ?case
    by (simp add: Cons.IH) (auto simp: AList.delete_eq intro!: filter_cong)
qed

lemma delete_test_projects:
  "foldl (\<lambda>al pr. AList.delete pr al) al (map fst (filter (\<lambda>(pr, m). is_test_project pr) al))
     = filter (\<lambda>(pr, m). \<not> is_test_project pr) al"
  unfolding foldl_delete
  by (rule filter_cong) force+

lemma length_filter_compl:
  "int (length xs) - int (length (filter (\<lambda>x. \<not> P x) xs)) = int (length (filter P xs))"
  using sum_length_filter_compl [of P xs] by simp

lemma filter_compl_shorter:
  "(length (filter (\<lambda>x. \<not> P x) xs) < length xs) = (filter P xs \<noteq> [])"
  using sum_length_filter_compl [of P xs] by (cases "filter P xs") auto

lemma cleanup_test_data_eq:
  "cleanup_test_data dm =
     (int (length (filter is_test_entry (work_entries (app_state dm)))),
      if filter is_test_entry (work_entries (app_state dm)) \<noteq> []
      then save_data (dm\<lparr>app_state := cleaned (app_state dm)\<rparr>)
      else dm\<lparr>app_state := cleaned (app_state dm)\<rparr>)"
proof -
  have cur: "is_test_current
      ((app_state dm)\<lparr>work_entries := filter (\<lambda>entry. \<not> is_test_entry entry)
          (work_entries (app_state dm))\<rparr>) = is_test_current (app_state dm)"
    by (simp add: is_test_current_def split: option.splits)
  show ?thesis
    unfolding cleanup_test_data_def Let_def cur
    by (simp add: delete_test_projects length_filter_compl filter_compl_shorter cleaned_def)
qed

lemma cleaned_idem_entries:
  "filter is_test_entry (work_entries (cleaned s)) = []"
  by (simp add: cleaned_def filter_empty_conv)



lemma is_test_project_marker: "is_test_project = has_marker"
  by (rule ext) (simp add: is_test_project_iff)



text \<open>
  C9. A second \<open>cleanup_test_data\<close> right after a first one removes nothing and
  returns 0.
\<close>

theorem cleanup_test_data_twice:
  "fst (cleanup_test_data (snd (cleanup_test_data dm))) = 0"
  by (simp add: cleanup_test_data_eq cleaned_idem_entries save_data_def Let_def)

subsection \<open>The in-progress pointer\<close>

lemma guarded_step_inv:
  assumes "guarded_step dm dm'"
    and "current_ticket (app_state dm) \<noteq> None \<longrightarrow> current_project (app_state dm) \<noteq> None"
  shows "current_ticket (app_state dm') \<noteq> None \<longrightarrow> current_project (app_state dm') \<noteq> None"
  using assms
  by (cases rule: guarded_step.cases)
    (auto simp: DataManager_add_work_entry_def add_work_entry_def save_data_def Let_def
      update_current_work_def stop_current_work_def cleanup_test_data_eq cleaned_def
      split: if_splits)

text \<open>
  C7 (as amended). In every state reached from the default state by
  \<open>add_work_entry\<close>, \<open>stop_current_work\<close>, \<open>cleanup_test_data\<close> and those calls
  of \<open>update_current_work\<close> that pass a ticket only together with a project or while a
  project is current, a current ticket comes with a current project.
\<close>

theorem current_ticket_has_project:
  assumes "guarded_step\<^sup>*\<^sup>* dm0 dm" and "app_state dm0 = default_state"
  shows "current_ticket (app_state dm) \<noteq> None \<longrightarrow> current_project (app_state dm) \<noteq> None"
  using assms
proof (induction rule: rtranclp_induct)
  case base
  then show ?case by (simp add: default_state_def)
next
  case (step y z)
  then show ?case using guarded_step_inv [of y z] by blast
qed


theorem current_ticket_has_project_witness:
  "current_ticket (app_state
      (update_current_work None None (Some ''notes'')
         (DataManager_add_work_entry
            \<lparr>year = 2026, month = 11, day = 4, hour = 9, minute = 0, second = 0, microsecond = 0\<rparr>
            ''BUG-42'' ''Alpha'' []
            (save_data \<lparr>files = \<lparr>data_file = None, backup_file = None, tmp_file = None\<rparr>,
                   app_state = default_state\<rparr>)))) = Some ''BUG-42''
   \<and> current_project (app_state
      (update_current_work None None (Some ''notes'')
         (DataManager_add_work_entry
            \<lparr>year = 2026, month = 11, day = 4, hour = 9, minute = 0, second = 0, microsecond = 0\<rparr>
            ''BUG-42'' ''Alpha'' []
            (save_data \<lparr>files = \<lparr>data_file = None, backup_file = None, tmp_file = None\<rparr>,
                   app_state = default_state\<rparr>)))) \<noteq> None"
proof -
  have "guarded_step\<^sup>*\<^sup>*
      (save_data \<lparr>files = \<lparr>data_file = None, backup_file = None, tmp_file = None\<rparr>,
                   app_state = default_state\<rparr>)
      (update_current_work None None (Some ''notes'')
         (DataManager_add_work_entry
            \<lparr>year = 2026, month = 11, day = 4, hour = 9, minute = 0, second = 0, microsecond = 0\<rparr>
            ''BUG-42'' ''Alpha'' []
            (save_data \<lparr>files = \<lparr>data_file = None, backup_file = None, tmp_file = None\<rparr>,
                   app_state = default_state\<rparr>)))"
    by (meson guarded_step.add guarded_step.update rtranclp.rtrancl_into_rtrancl
        rtranclp.rtrancl_refl)
  moreover have "app_state (save_data \<lparr>files = \<lparr>data_file = None, backup_file = None, tmp_file = None\<rparr>,
                   app_state = default_state\<rparr>) = default_state"
    by (simp add: save_data_def Let_def)
  ultimately have "current_ticket (app_state
      (update_current_work None None (Some ''notes'')
         (DataManager_add_work_entry
            \<lparr>year = 2026, month = 11, day = 4, hour = 9, minute = 0, second = 0, microsecond = 0\<rparr>
            ''BUG-42'' ''Alpha'' []
            (save_data \<lparr>files = \<lparr>data_file = None, backup_file = None, tmp_file = None\<rparr>,
                   app_state = default_state\<rparr>)))) \<noteq> None \<longrightarrow>
     current_project (app_state
      (update_current_work None None (Some ''notes'')
         (DataManager_add_work_entry
            \<lparr>year = 2026, month = 11, day = 4, hour = 9, minute = 0, second = 0, microsecond = 0\<rparr>
            ''BUG-42'' ''Alpha'' []
            (save_data \<lparr>files = \<lparr>data_file = None, backup_file = None, tmp_file = None\<rparr>,
                   app_state = default_state\<rparr>)))) \<noteq> None"
    by (rule current_ticket_has_project)
  moreover have "current_ticket (app_state
      (update_current_work None None (Some ''notes'')
         (DataManager_add_work_entry
            \<lparr>year = 2026, month = 11, day = 4, hour = 9, minute = 0, second = 0, microsecond = 0\<rparr>
            ''BUG-42'' ''Alpha'' []
            (save_data \<lparr>files = \<lparr>data_file = None, backup_file = None, tmp_file = None\<rparr>,
                   app_state = default_state\<rparr>)))) = Some ''BUG-42''"
    by (simp add: update_current_work_def DataManager_add_work_entry_def save_data_def
        Let_def add_work_entry_def)
  ultimately show ?thesis by simp
qed

text \<open>
  The claim as stated fails: from the default state, \<open>update_current_work\<close> with a
  ticket and no project sets the ticket and leaves the project unset.
\<close>

theorem update_current_work_ticket_only:
  "store_step\<^sup>*\<^sup>*
      (save_data \<lparr>files = \<lparr>data_file = None, backup_file = None, tmp_file = None\<rparr>,
                   app_state = default_state\<rparr>)
      (update_current_work (Some ''T-1'') None None
         (save_data \<lparr>files = \<lparr>data_file = None, backup_file = None, tmp_file = None\<rparr>,
                   app_state = default_state\<rparr>))
   \<and> app_state (save_data \<lparr>files = \<lparr>data_file = None, backup_file = None, tmp_file = None\<rparr>,
                   app_state = default_state\<rparr>) = default_state
   \<and> current_ticket (app_state (update_current_work (Some ''T-1'') None None
         (save_data \<lparr>files = \<lparr>data_file = None, backup_file = None, tmp_file = None\<rparr>,
                   app_state = default_state\<rparr>))) = Some ''T-1''
   \<and> current_project (app_state (update_current_work (Some ''T-1'') None None
         (save_data \<lparr>files = \<lparr>data_file = None, backup_file = None, tmp_file = None\<rparr>,
                   app_state = default_state\<rparr>))) = None"
proof -
  have "store_step\<^sup>*\<^sup>*
      (save_data \<lparr>files = \<lparr>data_file = None, backup_file = None, tmp_file = None\<rparr>,
                   app_state = default_state\<rparr>)
      (update_current_work (Some ''T-1'') None None
         (save_data \<lparr>files = \<lparr>data_file = None, backup_file = None, tmp_file = None\<rparr>,
                   app_state = default_state\<rparr>))"
    by (meson store_step.update rtranclp.rtrancl_into_rtrancl rtranclp.rtrancl_refl)
  then show ?thesis
    by (simp add: update_current_work_def save_data_def Let_def default_state_def)
qed

subsection \<open>The empty ticket\<close>

lemma map_of_filter_keys:
  "map_of (filter (\<lambda>(k, v). Q k) al) k = (if Q k then map_of al k else None)"
  by (induction al) auto

lemma patterns_for_add_mono:
  assumes "x \<in> set (patterns_for (project_mappings s) P)"
  shows "x \<in> set (patterns_for (project_mappings (add_work_entry now tk pr dt s)) P)"
proof (cases "pr = P")
  case True
  then show ?thesis using assms by (simp add: patterns_for_add_work_entry)
next
  case False
  then have "patterns_for (project_mappings (add_work_entry now tk pr dt s)) P =
      patterns_for (project_mappings s) P"
    by (simp add: add_work_entry_def patterns_for_def map_of_map_entry update_conv')
  then show ?thesis using assms by simp
qed

lemma store_step_keeps_pattern:
  assumes "store_step dm dm'" and "\<not> has_marker P"
    and "x \<in> set (patterns_for (project_mappings (app_state dm)) P)"
  shows "x \<in> set (patterns_for (project_mappings (app_state dm')) P)"
  using assms(1)
proof (cases rule: store_step.cases)
  case (add now tk pr dt)
  then show ?thesis
    using assms(3) by (simp add: DataManager_add_work_entry_def save_data_def Let_def
        patterns_for_add_mono)
next
  case (update tk' pr' dt')
  then show ?thesis
    using assms(3) by (simp add: update_current_work_def save_data_def Let_def)
next
  case stop
  then show ?thesis
    using assms(3) by (simp add: stop_current_work_def save_data_def Let_def)
next
  case cleanup
  have "project_mappings (app_state dm') =
      filter (\<lambda>(pr, m). \<not> has_marker pr) (project_mappings (app_state dm))"
    unfolding cleanup
    by (simp add: cleanup_test_data_eq cleaned_def save_data_def Let_def
        is_test_project_marker)
  then show ?thesis
    using assms(2,3) by (simp add: patterns_for_def map_of_filter_keys)
qed

lemma steps_keep_pattern:
  assumes "store_step\<^sup>*\<^sup>* dm dm'" and "\<not> has_marker P"
    and "x \<in> set (patterns_for (project_mappings (app_state dm)) P)"
  shows "x \<in> set (patterns_for (project_mappings (app_state dm')) P)"
  using assms
proof (induction rule: rtranclp_induct)
  case base
  then show ?case by simp
next
  case (step y z)
  then show ?case using store_step_keeps_pattern [of y z P x] by simp
qed

lemma empty_pattern_detects:
  assumes "[] \<in> set (patterns_for (project_mappings s) P)"
  shows "auto_detect_project s t \<noteq> None"
proof -
  from assms obtain m where m: "map_of (project_mappings s) P = Some m"
    and e: "[] \<in> set (ticket_patterns m)"
    by (cases "map_of (project_mappings s) P") (auto simp: patterns_for_def)
  from m have "(P, m) \<in> set (project_mappings s)" by (rule map_of_SomeD)
  moreover have "sublist (lower []) (lower t)" by (simp add: lower_def)
  ultimately have "\<exists>(pr, m)\<in>set (project_mappings s).
      \<exists>p\<in>set (ticket_patterns m). sublist (lower p) (lower t)"
    using e by blast
  then show ?thesis
    unfolding auto_detect_project_def scan_mappings_None by blast
qed

lemma scan_mappings_first:
  assumes "map_of pm P = Some m"
    and "\<exists>p\<in>set (ticket_patterns m). sublist (lower p) (lower t)"
    and "\<forall>(q, m')\<in>set (takeWhile (\<lambda>(q, m'). q \<noteq> P) pm).
           \<not> (\<exists>p\<in>set (ticket_patterns m'). sublist (lower p) (lower t))"
  shows "scan_mappings pm t = Some P"
  using assms
proof (induction pm)
  case Nil
  then show ?case by simp
next
  case (Cons a pm)
  obtain q m' where a: "a = (q, m')" by (cases a)
  show ?case
  proof (cases "q = P")
    case True
    then show ?thesis using Cons.prems a by (simp add: scan_patterns_iff)
  next
    case False
    then have "scan_mappings pm t = Some P"
      using Cons.prems a by (intro Cons.IH) auto
    moreover have "\<not> scan_patterns (ticket_patterns m') t"
      using Cons.prems(3) a False by (simp add: scan_patterns_iff)
    ultimately show ?thesis using a by simp
  qed
qed

lemma cleanup_mappings:
  "project_mappings (app_state (snd (cleanup_test_data dm))) =
     filter (\<lambda>(pr, m). \<not> is_test_project pr) (project_mappings (app_state dm))"
  by (simp add: cleanup_test_data_eq cleaned_def save_data_def Let_def)

lemma add_mappings_fresh:
  "project_mappings (app_state (DataManager_add_work_entry now tk pr dt
      (save_data \<lparr>files = fs, app_state = default_state\<rparr>)))
     = [(pr, \<lparr>ticket_patterns = [ticket_prefix tk], name = pr\<rparr>)]"
  by (simp add: DataManager_add_work_entry_def save_data_def Let_def add_work_entry_def
      default_state_def add_pattern_def)

text \<open>
  C10 (as amended). \<open>add_work_entry\<close> with an empty ticket for a project \<open>P\<close> stores
  the empty string as a pattern of \<open>P\<close> (the derived prefix of the empty ticket is
  empty); in the resulting state \<open>auto_detect_project\<close> returns a project for every
  ticket, and \<open>P\<close> itself whenever no mapping before \<open>P\<close> has a matching pattern.
  This stays so in every state reached by later store operations as long as cleanup
  does not delete the mapping of \<open>P\<close>, that is, when the name \<open>P\<close> holds no
  cleanup marker.
\<close>

theorem empty_ticket_pattern_matches_all:
  "ticket_prefix [] = []
   \<and> [] \<in> set (patterns_for (project_mappings (add_work_entry now [] P d s)) P)
   \<and> (\<forall>t. auto_detect_project (add_work_entry now [] P d s) t \<noteq> None)
   \<and> (\<forall>t. (\<forall>(q, m)\<in>set (takeWhile (\<lambda>(q, m). q \<noteq> P)
                        (project_mappings (add_work_entry now [] P d s))).
              \<not> (\<exists>p\<in>set (ticket_patterns m). sublist (lower p) (lower t)))
          \<longrightarrow> auto_detect_project (add_work_entry now [] P d s) t = Some P)
   \<and> (\<not> has_marker P \<longrightarrow>
        store_step\<^sup>*\<^sup>* (DataManager_add_work_entry now [] P d dm0) dm \<longrightarrow>
        (\<forall>t. auto_detect_project (app_state dm) t \<noteq> None))"
proof -
  have pre: "ticket_prefix [] = []" by (simp add: ticket_prefix_def)
  have mem: "[] \<in> set (patterns_for (project_mappings (add_work_entry now [] P d s')) P)" for s'
    by (simp add: patterns_for_add_work_entry pre)
  have now_all: "\<forall>t. auto_detect_project (add_work_entry now [] P d s) t \<noteq> None"
    using empty_pattern_detects [OF mem [of s]] by simp
  have first: "\<forall>t. (\<forall>(q, m)\<in>set (takeWhile (\<lambda>(q, m). q \<noteq> P)
                        (project_mappings (add_work_entry now [] P d s))).
              \<not> (\<exists>p\<in>set (ticket_patterns m). sublist (lower p) (lower t)))
          \<longrightarrow> auto_detect_project (add_work_entry now [] P d s) t = Some P"
  proof (intro allI impI)
    fix t
    assume none_before: "\<forall>(q, m)\<in>set (takeWhile (\<lambda>(q, m). q \<noteq> P)
                        (project_mappings (add_work_entry now [] P d s))).
              \<not> (\<exists>p\<in>set (ticket_patterns m). sublist (lower p) (lower t))"
    from mem [of s] obtain m
      where m: "map_of (project_mappings (add_work_entry now [] P d s)) P = Some m"
        and e: "[] \<in> set (ticket_patterns m)"
      by (cases "map_of (project_mappings (add_work_entry now [] P d s)) P")
        (auto simp: patterns_for_def)
    have "sublist (lower []) (lower t)" by (simp add: lower_def)
    with e have ex: "\<exists>p\<in>set (ticket_patterns m). sublist (lower p) (lower t)"
      by blast
    show "auto_detect_project (add_work_entry now [] P d s) t = Some P"
      unfolding auto_detect_project_def
      using m ex none_before by (rule scan_mappings_first)
  qed
  have later: "\<not> has_marker P \<longrightarrow>
        store_step\<^sup>*\<^sup>* (DataManager_add_work_entry now [] P d dm0) dm \<longrightarrow>
        (\<forall>t. auto_detect_project (app_state dm) t \<noteq> None)"
  proof (intro impI allI)
    fix t
    assume nm: "\<not> has_marker P"
      and steps: "store_step\<^sup>*\<^sup>* (DataManager_add_work_entry now [] P d dm0) dm"
    have "[] \<in> set (patterns_for
        (project_mappings (app_state (DataManager_add_work_entry now [] P d dm0))) P)"
      using mem [of "app_state dm0"]
      by (simp add: DataManager_add_work_entry_def save_data_def Let_def)
    with steps nm have "[] \<in> set (patterns_for (project_mappings (app_state dm)) P)"
      by (rule steps_keep_pattern)
    then show "auto_detect_project (app_state dm) t \<noteq> None"
      by (rule empty_pattern_detects)
  qed
  from pre mem [of s] now_all first later show ?thesis
    by (intro conjI)
qed

theorem empty_ticket_pattern_matches_all_witness:
  "\<not> has_marker ''Alpha''
   \<and> auto_detect_project (app_state (stop_current_work
        (DataManager_add_work_entry
           \<lparr>year = 2026, month = 11, day = 4, hour = 9, minute = 0, second = 0,
              microsecond = 0\<rparr>
           [] ''Alpha'' []
           (save_data \<lparr>files = \<lparr>data_file = None, backup_file = None, tmp_file = None\<rparr>,
                        app_state = default_state\<rparr>)))) ''ZZZ-1'' \<noteq> None"
proof -
  have nm: "\<not> has_marker ''Alpha''"
    by (simp add: has_marker_def test_patterns_def lower_def lower_char_def
        str_in_sublist [symmetric])
  have st: "store_step\<^sup>*\<^sup>*
      (DataManager_add_work_entry
           \<lparr>year = 2026, month = 11, day = 4, hour = 9, minute = 0, second = 0,
              microsecond = 0\<rparr>
           [] ''Alpha'' []
           (save_data \<lparr>files = \<lparr>data_file = None, backup_file = None, tmp_file = None\<rparr>,
                        app_state = default_state\<rparr>))
      (stop_current_work
        (DataManager_add_work_entry
           \<lparr>year = 2026, month = 11, day = 4, hour = 9, minute = 0, second = 0,
              microsecond = 0\<rparr>
           [] ''Alpha'' []
           (save_data \<lparr>files = \<lparr>data_file = None, backup_file = None, tmp_file = None\<rparr>,
                        app_state = default_state\<rparr>)))"
    by (rule r_into_rtranclp) (rule store_step.stop)
  show ?thesis
    using nm st empty_ticket_pattern_matches_all
      [where P = "''Alpha''" and dm = "stop_current_work
        (DataManager_add_work_entry
           \<lparr>year = 2026, month = 11, day = 4, hour = 9, minute = 0, second = 0,
              microsecond = 0\<rparr>
           [] ''Alpha'' []
           (save_data \<lparr>files = \<lparr>data_file = None, backup_file = None, tmp_file = None\<rparr>,
                        app_state = default_state\<rparr>))"]
    by blast
qed

text \<open>
  The claim as stated fails: with the project \<open>Test\<close>, a later cleanup deletes the
  mapping, and auto-detection returns no match again.
\<close>

theorem empty_ticket_pattern_lost_by_cleanup:
  "auto_detect_project (app_state (snd (cleanup_test_data
      (DataManager_add_work_entry
         \<lparr>year = 2026, month = 11, day = 4, hour = 9, minute = 0, second = 0,
            microsecond = 0\<rparr>
         [] ''Test'' []
         (save_data \<lparr>files = \<lparr>data_file = None, backup_file = None, tmp_file = None\<rparr>,
                      app_state = default_state\<rparr>))))) ''X'' = None"
proof -
  have tp: "is_test_project ''Test''"
    by (simp add: is_test_project_def test_patterns_def lower_def lower_char_def)
  show ?thesis
    by (simp add: auto_detect_project_def cleanup_mappings add_mappings_fresh tp)
qed

subsection \<open>Loading\<close>

text \<open>
  A data file that is not valid JSON, that lacks a key of an entry, or whose timestamp
  text is malformed makes the load raise one of the three exceptions it catches: the
  file is moved to the backup and a default state is written.
\<close>

lemma load_data_recovers:
  assumes "data_file fs = Some c"
    and "bind (json_load c) AppState_from_dict = Raises e" and "caught e"
  shows "\<exists>dm. load_data fs = Returns dm \<and> app_state dm = default_state
           \<and> backup_file (files dm) = Some c
           \<and> data_file (files dm) = Some (Json (AppState_to_dict default_state))"
  using assms by (simp add: load_data_def save_data_def Let_def)

text \<open>
  C6. The recovery promised for every unreadable or ill-structured data file does not
  cover a file whose JSON has a value of the wrong type: for an entry whose timestamp
  is the number 1, \<open>fromisoformat\<close> raises \<open>TypeError\<close>, which \<open>_load_data\<close> does
  not catch, so the exception reaches the caller and no backup is made.
\<close>

theorem load_data_type_error_escapes:
  "load_data
     \<lparr>data_file = Some (Json (PDict
        [(''work_entries'',
          PList [PDict [(''timestamp'', PInt 1), (''ticket'', PStr ''A''),
                        (''project'', PStr ''B'')]])])),
      backup_file = None, tmp_file = None\<rparr>
   = Raises TypeError"
proof -
  have e: "WorkEntry_from_dict
      (PDict [(''timestamp'', PInt 1), (''ticket'', PStr ''A''), (''project'', PStr ''B'')])
      = Raises TypeError"
    by (simp add: WorkEntry_from_dict_def getitem_def datetime_fromisoformat_def
        bind_Returns bind_Raises)
  have "AppState_from_dict (PDict
        [(''work_entries'',
          PList [PDict [(''timestamp'', PInt 1), (''ticket'', PStr ''A''),
                        (''project'', PStr ''B'')]])]) = Raises TypeError"
    by (simp add: AppState_from_dict_def dict_get_def truthy_def iterate_def e
        bind_Returns bind_Raises)
  then show ?thesis
    by (simp add: load_data_def json_load_def bind_Returns caught_def)
qed


subsection \<open>Grouping the entries of a report\<close>


lemma set_first_seen [simp]: "set (first_seen xs) = set xs"
  by (simp add: first_seen_def)

lemma distinct_first_seen [simp]: "distinct (first_seen xs)"
  by (simp add: first_seen_def)

lemma first_seen_Nil [simp]: "first_seen [] = []"
  by (simp add: first_seen_def)



lemma map_entry_fresh: "k \<notin> fst ` set al \<Longrightarrow> AList.map_entry k f al = al"
  by (induction al) auto






subsection \<open>Hours\<close>



lemma abs_total_filter:
  "\<bar>total_minutes (filter P es)\<bar> \<le> sum_list (map (\<lambda>e. \<bar>duration e\<bar>) es)"
  by (induction es) (auto simp: total_minutes_def)

lemma abs_total_filter2:
  "\<bar>total_minutes (filter Q (filter P es))\<bar> \<le> sum_list (map (\<lambda>e. \<bar>duration e\<bar>) es)"
  by (simp add: abs_total_filter)


subsection \<open>Sorted tickets\<close>





subsection \<open>Project sections and the report\<close>





subsection \<open>The three-entry scenario\<close>






lemma truediv_overflow: "int_truediv_60 (60 * 2 ^ 1024) = Raises OverflowError"
  by (simp add: int_truediv_60_def float_limit_def)







end
